theory Spec2Isabelle
  imports Complex_Main
begin

section \<open>The Coincheck broker adapter (src/Coincheck/BrokerAdapterImpl.ts)\<close>

text \<open>
  A shallow embedding of the class \<^verbatim>\<open>BrokerAdapterImpl\<close>. The class mutates the order it is
  given and talks to a remote exchange through \<^verbatim>\<open>BrokerApi\<close>; here every method takes the
  order and returns the order as the call leaves it, together with the error it threw (if
  any), the remote calls it made, in order, and the warnings it logged.

  JavaScript numbers are read as real numbers: subtraction, addition, \<^verbatim>\<open>Math.abs\<close> and the
  comparisons \<^verbatim>\<open>=== 0\<close> and \<^verbatim>\<open>> 0\<close> are the exact ones (no NaN, no infinity, no rounding
  in \<^verbatim>\<open>-\<close> and \<^verbatim>\<open>+\<close>). A \<^verbatim>\<open>Date\<close> is its number of milliseconds since the epoch, and
  \<^verbatim>\<open>new Date()\<close> is the parameter \<open>now\<close> of the method that reads the clock.
\<close>

subsection \<open>Data model\<close>

type_synonym number = real
type_synonym Date = int

text \<open>
  Modelled from the spec: the enumerations \<^verbatim>\<open>Broker\<close>, \<^verbatim>\<open>CashMarginType\<close>, \<^verbatim>\<open>QuoteSide\<close> and
  \<^verbatim>\<open>OrderStatus\<close> are declared in \<^verbatim>\<open>../types\<close>, which is not among the sources. The source
  names \<^verbatim>\<open>Broker.Coincheck\<close>, the three modes \<^verbatim>\<open>Cash\<close>, \<^verbatim>\<open>MarginOpen\<close>, \<^verbatim>\<open>NetOut\<close>, the sides
  \<^verbatim>\<open>Ask\<close>, \<^verbatim>\<open>Bid\<close> and the statuses \<^verbatim>\<open>PartiallyFilled\<close>, \<^verbatim>\<open>Filled\<close>, \<^verbatim>\<open>Canceled\<close>; the spec
  adds the initial status Open. TypeScript erases the enumerations at run time and the spec
  lets a mode come from external input, so a broker tag and a mode outside the names above
  are values too (\<open>OtherBroker\<close>, \<open>OtherMode\<close>).
\<close>

datatype Broker = Coincheck | OtherBroker string

datatype CashMarginType = Cash | MarginOpen | NetOut | OtherMode string

datatype QuoteSide = Ask | Bid

datatype OrderStatus = Open | PartiallyFilled | Filled | Canceled

text \<open>
  Modelled from the spec: the classes \<^verbatim>\<open>Execution\<close>, \<^verbatim>\<open>Order\<close> and \<^verbatim>\<open>Quote\<close> are declared in
  \<^verbatim>\<open>../Execution\<close>, \<^verbatim>\<open>../Order\<close> and \<^verbatim>\<open>../Quote\<close>, which are not among the sources. The
  records hold the fields the adapter reads or writes (the spec's data model lists the
  same ones); \<^verbatim>\<open>size\<close> is \<open>size_Execution\<close> and \<open>size_Order\<close>, and the four constructor
  arguments of \<^verbatim>\<open>Quote\<close> are named after the spec (broker tag, side, price, size). What
  \<^verbatim>\<open>new Execution(order)\<close> copies from the order is not in the sources either: an execution
  is the three fields \<^verbatim>\<open>refresh\<close> assigns.
\<close>

record Execution =
  execTime :: Date
  price :: number
  size_Execution :: number

record Order =
  broker :: Broker
  cashMarginType :: CashMarginType
  brokerOrderId :: string
  size_Order :: number
  creationTime :: Date
  filledSize :: number
  executions :: "Execution list"
  status :: OrderStatus
  lastUpdated :: Date

record Quote =
  quoteBroker :: Broker
  quoteSide :: QuoteSide
  quotePrice :: number
  quoteVolume :: number

text \<open>
  Modelled from the spec: the reply types of \<^verbatim>\<open>BrokerApi\<close> are declared in \<^verbatim>\<open>./types\<close>, which
  is not among the sources. The fields are those the adapter reads, with the spec's
  optional \<^verbatim>\<open>pending_amount\<close> as an option (\<open>None\<close> is \<^verbatim>\<open>undefined\<close>) and an order-book
  level \<^verbatim>\<open>[price, size]\<close> as a pair (\<^verbatim>\<open>q[0]\<close>, \<^verbatim>\<open>q[1]\<close>).
\<close>

record OpenOrder =
  id_OpenOrder :: string
  pending_amount :: "number option"

record OpenOrdersResponse =
  orders :: "OpenOrder list"

record Funds =
  btc :: number

record Transaction =
  order_id :: string
  created_at :: Date
  rate :: number
  funds :: Funds

record CancelOrderResponse =
  success :: bool

record OrderBooksResponse =
  asks :: "(number \<times> number) list"
  bids :: "(number \<times> number) list"

subsection \<open>Errors and effects\<close>

text \<open>
  Every \<^verbatim>\<open>throw\<close> of the class is an \<^verbatim>\<open>Error\<close> told apart by its message only; the
  constructors name them as the spec does:
  \<^item> \<open>BrokerMismatch\<close> is \<^verbatim>\<open>new Error()\<close> of \<^verbatim>\<open>send\<close>,
  \<^item> \<open>StrategyNotFound m\<close> is \<^verbatim>\<open>Unable to find a strategy for ${m}.\<close>,
  \<^item> \<open>CancelFailed i\<close> is \<^verbatim>\<open>Cancel ${i} failed.\<close>,
  \<^item> \<open>UnexpectedReply\<close> is \<^verbatim>\<open>Unexpected reply returned.\<close>,
  \<^item> \<open>TransportError\<close> is whatever a call of \<^verbatim>\<open>BrokerApi\<close> or of a strategy rejects with.
\<close>

datatype error =
    BrokerMismatch
  | StrategyNotFound CashMarginType
  | CancelFailed string
  | UnexpectedReply
  | TransportError string

text \<open>
  The remote exchange as one adapter call sees it: what each request answers. A request
  that rejects is \<open>Inl\<close>.
\<close>

record BrokerApi =
  getOrderBooks :: "error + OrderBooksResponse"
  getOpenOrders :: "error + OpenOrdersResponse"
  getTransactionsWithStartDate :: "Date \<Rightarrow> error + Transaction list"
  cancelOrder :: "string \<Rightarrow> error + CancelOrderResponse"

datatype api_call =
    GetOrderBooks
  | GetOpenOrders
  | GetTransactionsWithStartDate Date
  | CancelOrder string

text \<open>
  What a method that mutates its order leaves behind: the order object after the call
  (the writes made before a \<^verbatim>\<open>throw\<close> stay), the error thrown, the requests sent and the
  warnings logged.
\<close>

record outcome =
  result_order :: Order
  thrown :: "error option"
  calls :: "api_call list"
  logged :: "string list"

text \<open>
  The strategies \<^verbatim>\<open>CashStrategy\<close>, \<^verbatim>\<open>MarginOpenStrategy\<close> and \<^verbatim>\<open>NetOutStrategy\<close> are
  collaborators outside the class; the adapter uses their two methods only.
\<close>

record CashMarginTypeStrategy =
  strategy_getBtcPosition :: "error + number"
  strategy_send :: "Order \<Rightarrow> outcome"

record BrokerConfig =
  config_cashMarginType :: CashMarginType

record BrokerAdapterImpl =
  brokerApi :: BrokerApi
  config :: BrokerConfig
  this_broker :: Broker
  strategyMap :: "CashMarginType \<rightharpoonup> CashMarginTypeStrategy"

subsection \<open>The methods\<close>

text \<open>
  The constructor takes what it builds from its collaborators as parameters: the three
  strategy classes (each applied to the adapter's \<^verbatim>\<open>BrokerApi\<close>), the \<^verbatim>\<open>BrokerApi\<close> it creates
  from the configured key and secret, and the configuration \<^verbatim>\<open>findBrokerConfig\<close> returns.
\<close>

definition "constructor" ::
  "(BrokerApi \<Rightarrow> CashMarginTypeStrategy) \<Rightarrow> (BrokerApi \<Rightarrow> CashMarginTypeStrategy) \<Rightarrow>
   (BrokerApi \<Rightarrow> CashMarginTypeStrategy) \<Rightarrow> BrokerApi \<Rightarrow> BrokerConfig \<Rightarrow> BrokerAdapterImpl" where
  "constructor CashStrategy MarginOpenStrategy NetOutStrategy api cfg =
     \<lparr> brokerApi = api,
       config = cfg,
       this_broker = Coincheck,
       strategyMap =
         [Cash \<mapsto> CashStrategy api,
          MarginOpen \<mapsto> MarginOpenStrategy api,
          NetOut \<mapsto> NetOutStrategy api] \<rparr>"

definition getBtcPosition :: "BrokerAdapterImpl \<Rightarrow> error + number" where
  "getBtcPosition this =
     (case strategyMap this (config_cashMarginType (config this)) of
        None \<Rightarrow> Inl (StrategyNotFound (config_cashMarginType (config this)))
      | Some strategy \<Rightarrow> strategy_getBtcPosition strategy)"

definition mapToQuote :: "BrokerAdapterImpl \<Rightarrow> OrderBooksResponse \<Rightarrow> Quote list" where
  "mapToQuote this orderBooksResponse =
     (let asks' = map (\<lambda>q. \<lparr> quoteBroker = this_broker this, quoteSide = Ask,
                              quotePrice = fst q, quoteVolume = snd q \<rparr>)
                      (take 100 (asks orderBooksResponse));
          bids' = map (\<lambda>q. \<lparr> quoteBroker = this_broker this, quoteSide = Bid,
                              quotePrice = fst q, quoteVolume = snd q \<rparr>)
                      (take 100 (bids orderBooksResponse))
      in asks' @ bids')"

text \<open>
  \<^verbatim>\<open>fetchQuotes\<close> catches whatever the order-book request rejects with and returns no
  quotes; the two log lines of the \<^verbatim>\<open>catch\<close> branch are left out.
\<close>

definition fetchQuotes :: "BrokerAdapterImpl \<Rightarrow> Quote list" where
  "fetchQuotes this =
     (case getOrderBooks (brokerApi this) of
        Inl ex \<Rightarrow> []
      | Inr response \<Rightarrow> mapToQuote this response)"

definition send :: "BrokerAdapterImpl \<Rightarrow> Order \<Rightarrow> outcome" where
  "send this ord =
     (if broker ord \<noteq> this_broker this then
        \<lparr> result_order = ord, thrown = Some BrokerMismatch, calls = [], logged = [] \<rparr>
      else
        (case strategyMap this (cashMarginType ord) of
           None \<Rightarrow>
             \<lparr> result_order = ord, thrown = Some (StrategyNotFound (cashMarginType ord)),
               calls = [], logged = [] \<rparr>
         | Some strategy \<Rightarrow> strategy_send strategy ord))"

definition cancel :: "BrokerAdapterImpl \<Rightarrow> Date \<Rightarrow> Order \<Rightarrow> outcome" where
  "cancel this now ord =
     (let orderId = brokerOrderId ord in
      case cancelOrder (brokerApi this) orderId of
        Inl e \<Rightarrow>
          \<lparr> result_order = ord, thrown = Some e, calls = [CancelOrder orderId], logged = [] \<rparr>
      | Inr reply \<Rightarrow>
          if \<not> success reply then
            \<lparr> result_order = ord, thrown = Some (CancelFailed orderId),
              calls = [CancelOrder orderId], logged = [] \<rparr>
          else
            \<lparr> result_order = ord\<lparr> lastUpdated := now, status := Canceled \<rparr>,
              thrown = None, calls = [CancelOrder orderId], logged = [] \<rparr>)"

text \<open>\<^verbatim>\<open>addMinutes\<close> of date-fns, on milliseconds.\<close>

definition addMinutes :: "Date \<Rightarrow> int \<Rightarrow> Date" where
  "addMinutes d amount = d + amount * 60000"

text \<open>
  \<^verbatim>\<open>refresh\<close>. \<^verbatim>\<open>_.sumBy\<close> adds from the left; on real numbers that is \<open>sum_list\<close>. The helpers \<^verbatim>\<open>eRound\<close> and \<^verbatim>\<open>almostEqual\<close> are imported from \<^verbatim>\<open>../util\<close>, which
  is not among the sources: they are the parameters \<open>eRound\<close> and \<open>almostEqual\<close>.
\<close>

definition refresh ::
  "(number \<Rightarrow> number) \<Rightarrow> (number \<Rightarrow> number \<Rightarrow> number \<Rightarrow> bool) \<Rightarrow>
   BrokerAdapterImpl \<Rightarrow> Date \<Rightarrow> Order \<Rightarrow> outcome" where
  "refresh eRound almostEqual this now ord =
     (case getOpenOrders (brokerApi this) of
        Inl e \<Rightarrow>
          \<lparr> result_order = ord, thrown = Some e, calls = [GetOpenOrders], logged = [] \<rparr>
      | Inr reply \<Rightarrow>
          (case find (\<lambda>x. id_OpenOrder x = brokerOrderId ord) (orders reply) of
             Some brokerOrder \<Rightarrow>
               (case pending_amount brokerOrder of
                  None \<Rightarrow>
                    \<lparr> result_order = ord, thrown = Some UnexpectedReply,
                      calls = [GetOpenOrders], logged = [] \<rparr>
                | Some pending \<Rightarrow>
                    if pending = 0 then
                      \<lparr> result_order = ord, thrown = Some UnexpectedReply,
                        calls = [GetOpenOrders], logged = [] \<rparr>
                    else
                      let ord1 = ord\<lparr> filledSize := eRound (size_Order ord - pending) \<rparr>;
                          ord2 = (if filledSize ord1 > 0
                                  then ord1\<lparr> status := PartiallyFilled \<rparr> else ord1)
                      in \<lparr> result_order = ord2\<lparr> lastUpdated := now \<rparr>, thrown = None,
                           calls = [GetOpenOrders], logged = [] \<rparr>)
           | None \<Rightarrow>
               (let from = addMinutes (creationTime ord) (- 1) in
                case getTransactionsWithStartDate (brokerApi this) from of
                  Inl e \<Rightarrow>
                    \<lparr> result_order = ord, thrown = Some e,
                      calls = [GetOpenOrders, GetTransactionsWithStartDate from],
                      logged = [] \<rparr>
                | Inr reply2 \<Rightarrow>
                    let transactions =
                          filter (\<lambda>x. order_id x = brokerOrderId ord) reply2
                    in if length transactions = 0 then
                         \<lparr> result_order = ord, thrown = None,
                           calls = [GetOpenOrders, GetTransactionsWithStartDate from],
                           logged = [''The order is not found in pending orders and historical orders.''] \<rparr>
                       else
                         let ord1 = ord\<lparr> executions :=
                                     map (\<lambda>x. \<lparr> execTime = created_at x, price = rate x,
                                                 size_Execution = \<bar>btc (funds x)\<bar> \<rparr>)
                                         transactions \<rparr>;
                             ord2 = ord1\<lparr> filledSize :=
                                     eRound (sum_list (map size_Execution (executions ord1))) \<rparr>;
                             ord3 = ord2\<lparr> status :=
                                     (if almostEqual (filledSize ord2) (size_Order ord2) 1
                                      then Filled else Canceled) \<rparr>
                         in \<lparr> result_order = ord3\<lparr> lastUpdated := now \<rparr>, thrown = None,
                              calls = [GetOpenOrders, GetTransactionsWithStartDate from],
                              logged = [] \<rparr>)))"

subsection \<open>The helpers of util, and sample data\<close>

text \<open>
  Modelled from the spec: \<^verbatim>\<open>eRound\<close> of \<^verbatim>\<open>../util\<close> is not among the sources. The spec calls it
  the rounding utility, which rounds to the exchange's minimum unit; the number of decimals
  is left open and is the parameter \<open>p\<close>. Used for the concrete instances only: every
  general theorem below holds for any \<open>eRound\<close>.
\<close>

definition eRound_dec :: "nat \<Rightarrow> number \<Rightarrow> number" where
  "eRound_dec p n = of_int (round (n * 10 ^ p)) / 10 ^ p"

text \<open>
  Modelled from the spec: \<^verbatim>\<open>almostEqual\<close> of \<^verbatim>\<open>../util\<close> is not among the sources. The spec
  calls it approximate equality within a tolerance counted in units of the rounding
  precision. Used for the concrete instances only: every general theorem below holds for
  any \<open>almostEqual\<close>.
\<close>

definition almostEqual_dec :: "nat \<Rightarrow> number \<Rightarrow> number \<Rightarrow> number \<Rightarrow> bool" where
  "almostEqual_dec p a b tolerance = (\<bar>a - b\<bar> \<le> tolerance / 10 ^ p)"

text \<open>
  Sample data: a strategy that accepts every order, an exchange that answers with a given
  list of open orders, a given transaction history (from the start date on) and a given
  cancel acknowledgement, an adapter built by the constructor, an order and a transaction.
\<close>

definition stubStrategy :: "BrokerApi \<Rightarrow> CashMarginTypeStrategy" where
  "stubStrategy api =
     \<lparr> strategy_getBtcPosition = Inr 0,
       strategy_send = (\<lambda>ord. \<lparr> result_order = ord, thrown = None, calls = [], logged = [] \<rparr>) \<rparr>"

definition exchange :: "OpenOrder list \<Rightarrow> Transaction list \<Rightarrow> bool \<Rightarrow> BrokerApi" where
  "exchange pending history ack =
     \<lparr> getOrderBooks = Inr \<lparr> asks = [], bids = [] \<rparr>,
       getOpenOrders = Inr \<lparr> orders = pending \<rparr>,
       getTransactionsWithStartDate = (\<lambda>from. Inr (filter (\<lambda>x. from \<le> created_at x) history)),
       cancelOrder = (\<lambda>i. Inr \<lparr> success = ack \<rparr>) \<rparr>"

definition adapter :: "BrokerApi \<Rightarrow> CashMarginType \<Rightarrow> BrokerAdapterImpl" where
  "adapter api mode =
     constructor stubStrategy stubStrategy stubStrategy api \<lparr> config_cashMarginType = mode \<rparr>"

definition sample_order :: "OrderStatus \<Rightarrow> Order" where
  "sample_order st =
     \<lparr> broker = Coincheck, cashMarginType = Cash, brokerOrderId = ''A1'', size_Order = 1 / 2,
       creationTime = 1000000, filledSize = 0, executions = [], status = st,
       lastUpdated = 1000000 \<rparr>"

definition fill :: "string \<Rightarrow> Date \<Rightarrow> number \<Rightarrow> number \<Rightarrow> Transaction" where
  "fill i t r amount = \<lparr> order_id = i, created_at = t, rate = r, funds = \<lparr> btc = amount \<rparr> \<rparr>"

section \<open>Properties\<close>

lemmas fixtures = stubStrategy_def exchange_def adapter_def sample_order_def fill_def
  constructor_def eRound_dec_def almostEqual_dec_def

lemma all_less_2: "(\<forall>i<2::nat. P i) = (P 0 \<and> P 1)"
  by (auto simp: less_Suc_eq numeral_2_eq_2)

lemma find_absent:
  "k \<notin> id_OpenOrder ` set xs \<Longrightarrow> find (\<lambda>x. id_OpenOrder x = k) xs = None"
  by (force simp: find_None_iff)

lemma eRound_dec_of_int: "eRound_dec p (of_int k) = of_int k"
proof -
  have "(of_int k :: real) * 10 ^ p = of_int (k * 10 ^ p)"
    by simp
  then have "round ((of_int k :: real) * 10 ^ p) = k * 10 ^ p"
    by (simp only: round_of_int)
  then show ?thesis
    by (simp add: eRound_dec_def)
qed

subsection \<open>refresh, the order settled: found in the transaction history\<close>

text \<open>
  Claim C1. An order that is absent from the open-orders snapshot and has at least one
  transaction with its broker order id in the history (asked for from one minute before
  the order's creation time): \<^verbatim>\<open>refresh\<close> succeeds and builds one execution per matching
  transaction, in the order of the feed, with the transaction's \<^verbatim>\<open>created_at\<close> as time, its
  \<^verbatim>\<open>rate\<close> as price and the absolute value of its \<^verbatim>\<open>funds.btc\<close> as size; the filled size is
  \<open>eRound\<close> of the sum of the execution sizes; the status is Filled when
  \<open>almostEqual filledSize size 1\<close> holds and Canceled otherwise; the last-updated time is
  the current time.
\<close>

theorem refresh_settled:
  assumes "getOpenOrders (brokerApi this) = Inr reply"
    and "brokerOrderId ord \<notin> id_OpenOrder ` set (orders reply)"
    and "getTransactionsWithStartDate (brokerApi this) (creationTime ord - 60000) = Inr history"
    and "brokerOrderId ord \<in> order_id ` set history"
  shows "let r = refresh eRound almostEqual this now ord;
             transactions = filter (\<lambda>x. order_id x = brokerOrderId ord) history;
             execs = executions (result_order r)
         in thrown r = None
            \<and> length execs = length transactions
            \<and> (\<forall>i < length transactions.
                  execTime (execs ! i) = created_at (transactions ! i)
                  \<and> price (execs ! i) = rate (transactions ! i)
                  \<and> size_Execution (execs ! i) = \<bar>btc (funds (transactions ! i))\<bar>)
            \<and> filledSize (result_order r) = eRound (sum_list (map size_Execution execs))
            \<and> filledSize (result_order r) =
                eRound (sum_list (map (\<lambda>x. \<bar>btc (funds x)\<bar>) transactions))
            \<and> status (result_order r) =
                (if almostEqual (filledSize (result_order r)) (size_Order ord) 1
                 then Filled else Canceled)
            \<and> lastUpdated (result_order r) = now"
proof -
  have absent: "find (\<lambda>x. id_OpenOrder x = brokerOrderId ord) (orders reply) = None"
    using assms(2) by (rule find_absent)
  have some: "filter (\<lambda>x. order_id x = brokerOrderId ord) history \<noteq> []"
    using assms(4) by (force simp: filter_empty_conv)
  show ?thesis
    using assms(1,3) absent some
    by (simp add: refresh_def addMinutes_def Let_def comp_def)
qed

text \<open>
  Two instances: two fills of a quarter each (reported as negative deltas, among another
  order's transaction) fill the order of size one half; one fill of a quarter leaves it
  Canceled.
\<close>

theorem refresh_settled_witness:
  "(let r = refresh (eRound_dec 8) (almostEqual_dec 8)
              (adapter (exchange []
                          [fill ''A1'' 1000100 300000 (- (1 / 4)), fill ''B2'' 1000150 300050 1,
                           fill ''A1'' 1000200 300100 (- (1 / 4))] True) Cash)
              2000000 (sample_order Open);
        execs = executions (result_order r)
    in thrown r = None \<and> length execs = 2
       \<and> execTime (execs ! 0) = 1000100 \<and> price (execs ! 0) = 300000
       \<and> size_Execution (execs ! 0) = 1 / 4
       \<and> execTime (execs ! 1) = 1000200 \<and> price (execs ! 1) = 300100
       \<and> size_Execution (execs ! 1) = 1 / 4
       \<and> filledSize (result_order r) = 1 / 2
       \<and> status (result_order r) = Filled
       \<and> lastUpdated (result_order r) = 2000000)
   \<and> (let r = refresh (eRound_dec 8) (almostEqual_dec 8)
              (adapter (exchange [] [fill ''A1'' 1000100 300000 (1 / 4)] True) Cash)
              2000000 (sample_order PartiallyFilled);
        execs = executions (result_order r)
    in thrown r = None \<and> length execs = 1
       \<and> execTime (execs ! 0) = 1000100 \<and> price (execs ! 0) = 300000
       \<and> size_Execution (execs ! 0) = 1 / 4
       \<and> filledSize (result_order r) = 1 / 4
       \<and> status (result_order r) = Canceled)"
proof -
  let ?h1 = "[fill ''A1'' 1000100 300000 (- (1 / 4)), fill ''B2'' 1000150 300050 1,
              fill ''A1'' 1000200 300100 (- (1 / 4))]"
  let ?h2 = "[fill ''A1'' 1000100 300000 (1 / 4)]"
  note a = refresh_settled
            [of "adapter (exchange [] ?h1 True) Cash" "\<lparr> orders = [] \<rparr>" "sample_order Open" ?h1
                "eRound_dec 8" "almostEqual_dec 8" 2000000]
  note b = refresh_settled
            [of "adapter (exchange [] ?h2 True) Cash" "\<lparr> orders = [] \<rparr>"
                "sample_order PartiallyFilled" ?h2 "eRound_dec 8" "almostEqual_dec 8" 2000000]
  show ?thesis
    using a b by (simp add: fixtures Let_def all_less_2)
qed

subsection \<open>refresh, the order still open\<close>

text \<open>
  Claim C2. An order found in the open-orders snapshot (the first entry with its broker
  order id) whose entry has no pending amount, or the pending amount zero: \<^verbatim>\<open>refresh\<close>
  throws the unexpected-reply error, the order is as it was, and the only request sent is
  the one for the open orders: the transaction history is not asked for.
\<close>

theorem refresh_open_without_pending:
  assumes "getOpenOrders (brokerApi this) = Inr reply"
    and "find (\<lambda>x. id_OpenOrder x = brokerOrderId ord) (orders reply) = Some brokerOrder"
    and "pending_amount brokerOrder = None \<or> pending_amount brokerOrder = Some 0"
  shows "let r = refresh eRound almostEqual this now ord in
           thrown r = Some UnexpectedReply \<and> result_order r = ord \<and> calls r = [GetOpenOrders]"
  using assms by (auto simp: refresh_def)

text \<open>
  Two instances: a pending amount of zero, with a matching transaction in the history
  that is never read, and no pending amount.
\<close>

theorem refresh_open_without_pending_witness:
  "(let r = refresh (eRound_dec 8) (almostEqual_dec 8)
              (adapter (exchange [\<lparr> id_OpenOrder = ''A1'', pending_amount = Some 0 \<rparr>]
                          [fill ''A1'' 1000500 300000 (1 / 2)] True) Cash)
              2000000 (sample_order Open)
    in thrown r = Some UnexpectedReply \<and> result_order r = sample_order Open
       \<and> calls r = [GetOpenOrders])
   \<and> (let r = refresh (eRound_dec 8) (almostEqual_dec 8)
              (adapter (exchange [\<lparr> id_OpenOrder = ''A1'', pending_amount = None \<rparr>] [] True) Cash)
              2000000 (sample_order PartiallyFilled)
    in thrown r = Some UnexpectedReply \<and> result_order r = sample_order PartiallyFilled
       \<and> calls r = [GetOpenOrders])"
proof -
  let ?zero = "\<lparr> id_OpenOrder = ''A1'', pending_amount = Some (0::real) \<rparr>"
  let ?none = "\<lparr> id_OpenOrder = ''A1'', pending_amount = (None :: real option) \<rparr>"
  note a = refresh_open_without_pending
            [of "adapter (exchange [?zero] [fill ''A1'' 1000500 300000 (1 / 2)] True) Cash"
                "\<lparr> orders = [?zero] \<rparr>" "sample_order Open" ?zero
                "eRound_dec 8" "almostEqual_dec 8" 2000000]
  note b = refresh_open_without_pending
            [of "adapter (exchange [?none] [] True) Cash"
                "\<lparr> orders = [?none] \<rparr>" "sample_order PartiallyFilled" ?none
                "eRound_dec 8" "almostEqual_dec 8" 2000000]
  show ?thesis
    using a b by (simp add: fixtures)
qed

text \<open>
  Claim C3. An order found in the open-orders snapshot whose entry has a pending amount
  other than zero: \<^verbatim>\<open>refresh\<close> succeeds, the filled size is \<open>eRound\<close> of the requested size
  minus the pending amount, the status is PartiallyFilled when that filled size is above
  zero and is the status the order had otherwise, the last-updated time is the current
  time, the only request sent is the one for the open orders, and the executions (with
  every other field) are as they were.
\<close>

theorem refresh_open_pending:
  assumes "getOpenOrders (brokerApi this) = Inr reply"
    and "find (\<lambda>x. id_OpenOrder x = brokerOrderId ord) (orders reply) = Some brokerOrder"
    and "pending_amount brokerOrder = Some pending"
    and "pending \<noteq> 0"
  shows "let r = refresh eRound almostEqual this now ord;
             filled = eRound (size_Order ord - pending)
         in thrown r = None
            \<and> filledSize (result_order r) = filled
            \<and> (0 < filled \<longrightarrow> status (result_order r) = PartiallyFilled)
            \<and> (\<not> 0 < filled \<longrightarrow> status (result_order r) = status ord)
            \<and> lastUpdated (result_order r) = now
            \<and> calls r = [GetOpenOrders]
            \<and> executions (result_order r) = executions ord
            \<and> result_order r =
                ord\<lparr> filledSize := filled, status := status (result_order r), lastUpdated := now \<rparr>"
  using assms by (simp add: refresh_def Let_def)

text \<open>
  Two instances on the order of size one half: a quarter pending (a quarter filled, the
  status becomes PartiallyFilled) and the whole size pending (nothing filled, the status
  stays Open).
\<close>

theorem refresh_open_pending_witness:
  "(let r = refresh (eRound_dec 8) (almostEqual_dec 8)
              (adapter (exchange [\<lparr> id_OpenOrder = ''B2'', pending_amount = Some 1 \<rparr>,
                                  \<lparr> id_OpenOrder = ''A1'', pending_amount = Some (1 / 4) \<rparr>]
                          [fill ''A1'' 1000500 300000 (1 / 4)] True) Cash)
              2000000 (sample_order Open)
    in thrown r = None \<and> filledSize (result_order r) = 1 / 4
       \<and> status (result_order r) = PartiallyFilled
       \<and> lastUpdated (result_order r) = 2000000 \<and> calls r = [GetOpenOrders]
       \<and> executions (result_order r) = [])
   \<and> (let r = refresh (eRound_dec 8) (almostEqual_dec 8)
              (adapter (exchange [\<lparr> id_OpenOrder = ''A1'', pending_amount = Some (1 / 2) \<rparr>]
                          [] True) Cash)
              2000000 (sample_order Open)
    in thrown r = None \<and> filledSize (result_order r) = 0
       \<and> status (result_order r) = Open
       \<and> lastUpdated (result_order r) = 2000000 \<and> calls r = [GetOpenOrders]
       \<and> executions (result_order r) = [])"
proof -
  let ?other = "\<lparr> id_OpenOrder = ''B2'', pending_amount = Some (1::real) \<rparr>"
  let ?quarter = "\<lparr> id_OpenOrder = ''A1'', pending_amount = Some (1 / 4 :: real) \<rparr>"
  let ?half = "\<lparr> id_OpenOrder = ''A1'', pending_amount = Some (1 / 2 :: real) \<rparr>"
  note a = refresh_open_pending
            [of "adapter (exchange [?other, ?quarter] [fill ''A1'' 1000500 300000 (1 / 4)] True) Cash"
                "\<lparr> orders = [?other, ?quarter] \<rparr>" "sample_order Open" ?quarter "1 / 4"
                "eRound_dec 8" "almostEqual_dec 8" 2000000]
  note b = refresh_open_pending
            [of "adapter (exchange [?half] [] True) Cash"
                "\<lparr> orders = [?half] \<rparr>" "sample_order Open" ?half "1 / 2"
                "eRound_dec 8" "almostEqual_dec 8" 2000000]
  show ?thesis
    using a b by (simp add: fixtures Let_def)
qed

subsection \<open>refresh, the order neither open nor in the history\<close>

text \<open>
  Claim C4. An order that is absent from the open-orders snapshot and has no transaction
  with its broker order id in the history: \<^verbatim>\<open>refresh\<close> returns without an error and the
  order, every field of it, is as it was; the call logs its warning and nothing else.
\<close>

theorem refresh_not_found_noop:
  assumes "getOpenOrders (brokerApi this) = Inr reply"
    and "brokerOrderId ord \<notin> id_OpenOrder ` set (orders reply)"
    and "getTransactionsWithStartDate (brokerApi this) (creationTime ord - 60000) = Inr history"
    and "brokerOrderId ord \<notin> order_id ` set history"
  shows "let r = refresh eRound almostEqual this now ord in
           result_order r = ord \<and> thrown r = None
           \<and> logged r = [''The order is not found in pending orders and historical orders.'']"
proof -
  have absent: "find (\<lambda>x. id_OpenOrder x = brokerOrderId ord) (orders reply) = None"
    using assms(2) by (rule find_absent)
  have none: "filter (\<lambda>x. order_id x = brokerOrderId ord) history = []"
    using assms(4) by (force simp: filter_empty_conv)
  show ?thesis
    using assms(1,3) absent none by (simp add: refresh_def addMinutes_def)
qed

text \<open>
  An instance: the snapshot and the history hold another order's entries only.
\<close>

theorem refresh_not_found_noop_witness:
  "(let r = refresh (eRound_dec 8) (almostEqual_dec 8)
              (adapter (exchange [\<lparr> id_OpenOrder = ''B2'', pending_amount = Some 1 \<rparr>]
                          [fill ''B2'' 1000500 300000 (1 / 2)] True) Cash)
              2000000 (sample_order Open)
    in result_order r = sample_order Open \<and> thrown r = None \<and> length (logged r) = 1)"
proof -
  let ?other = "\<lparr> id_OpenOrder = ''B2'', pending_amount = Some (1::real) \<rparr>"
  let ?h = "[fill ''B2'' 1000500 300000 (1 / 2)]"
  note a = refresh_not_found_noop
            [of "adapter (exchange [?other] ?h True) Cash" "\<lparr> orders = [?other] \<rparr>"
                "sample_order Open" ?h "eRound_dec 8" "almostEqual_dec 8" 2000000]
  show ?thesis
    using a by (simp add: fixtures Let_def)
qed

subsection \<open>Terminal statuses\<close>

text \<open>
  Claim C5, as amended. An order whose status is Filled or Canceled: \<^verbatim>\<open>cancel\<close> leaves the
  status Filled or Canceled; \<^verbatim>\<open>refresh\<close> never makes it Open, and makes it PartiallyFilled
  exactly when the order is found in the open-orders snapshot with a pending amount other
  than zero and \<open>eRound\<close> of the requested size minus the pending amount is above zero; on
  every other path the status after \<^verbatim>\<open>refresh\<close> is Filled or Canceled.
\<close>

theorem refresh_cancel_terminal:
  assumes "status ord = Filled \<or> status ord = Canceled"
  shows "let r = refresh eRound almostEqual this now ord; c = cancel this now ord in
           status (result_order c) \<in> {Filled, Canceled}
           \<and> status (result_order r) \<in> {PartiallyFilled, Filled, Canceled}
           \<and> (status (result_order r) = PartiallyFilled \<longleftrightarrow>
                (\<exists>reply brokerOrder pending.
                   getOpenOrders (brokerApi this) = Inr reply
                   \<and> find (\<lambda>x. id_OpenOrder x = brokerOrderId ord) (orders reply) = Some brokerOrder
                   \<and> pending_amount brokerOrder = Some pending \<and> pending \<noteq> 0
                   \<and> 0 < eRound (size_Order ord - pending)))"
  using assms
  by (auto simp: refresh_def cancel_def Let_def split: sum.splits option.splits)

text \<open>
  Two instances: a Filled order that the snapshot still lists with a quarter pending
  becomes PartiallyFilled; a Canceled order that has left the snapshot and has a fill of
  a quarter in the history stays terminal.
\<close>

theorem refresh_cancel_terminal_witness:
  "status (sample_order Filled) = Filled
   \<and> status (result_order
        (refresh (eRound_dec 8) (almostEqual_dec 8)
           (adapter (exchange [\<lparr> id_OpenOrder = ''A1'', pending_amount = Some (1 / 4) \<rparr>] [] True) Cash)
           2000000 (sample_order Filled))) = PartiallyFilled
   \<and> status (result_order
        (cancel
           (adapter (exchange [\<lparr> id_OpenOrder = ''A1'', pending_amount = Some (1 / 4) \<rparr>] [] True) Cash)
           2000000 (sample_order Filled))) \<in> {Filled, Canceled}
   \<and> status (sample_order Canceled) = Canceled
   \<and> status (result_order
        (refresh (eRound_dec 8) (almostEqual_dec 8)
           (adapter (exchange [] [fill ''A1'' 1000100 300000 (1 / 4)] True) Cash)
           2000000 (sample_order Canceled))) \<in> {Filled, Canceled}"
proof -
  let ?entry = "\<lparr> id_OpenOrder = ''A1'', pending_amount = Some (1 / 4 :: real) \<rparr>"
  let ?listed = "adapter (exchange [?entry] [] True) Cash"
  let ?settled = "adapter (exchange [] [fill ''A1'' 1000100 300000 (1 / 4)] True) Cash"
  have filled: "status (sample_order Filled) = Filled"
    and canceled: "status (sample_order Canceled) = Canceled"
    by (simp_all add: sample_order_def)
  note a = refresh_cancel_terminal
            [of "sample_order Filled" "eRound_dec 8" "almostEqual_dec 8" ?listed 2000000,
             unfolded Let_def, OF disjI1, OF filled]
  note b = refresh_cancel_terminal
            [of "sample_order Canceled" "eRound_dec 8" "almostEqual_dec 8" ?settled 2000000,
             unfolded Let_def, OF disjI2, OF canceled]
  have found: "\<exists>reply brokerOrder pending.
      getOpenOrders (brokerApi ?listed) = Inr reply
      \<and> find (\<lambda>x. id_OpenOrder x = brokerOrderId (sample_order Filled)) (orders reply)
          = Some brokerOrder
      \<and> pending_amount brokerOrder = Some pending \<and> pending \<noteq> 0
      \<and> 0 < eRound_dec 8 (size_Order (sample_order Filled) - pending)"
    by (intro exI [of _ "\<lparr> orders = [?entry] \<rparr>"] exI [of _ ?entry] exI [of _ "1 / 4"])
       (simp add: fixtures)
  have partially: "status (result_order
      (refresh (eRound_dec 8) (almostEqual_dec 8) ?listed 2000000 (sample_order Filled)))
      = PartiallyFilled"
    using a found by blast
  have absent: "\<not> (\<exists>reply brokerOrder pending.
      getOpenOrders (brokerApi ?settled) = Inr reply
      \<and> find (\<lambda>x. id_OpenOrder x = brokerOrderId (sample_order Canceled)) (orders reply)
          = Some brokerOrder
      \<and> pending_amount brokerOrder = Some pending \<and> pending \<noteq> 0
      \<and> 0 < eRound_dec 8 (size_Order (sample_order Canceled) - pending))"
    by (auto simp add: stubStrategy_def exchange_def adapter_def constructor_def)
  have terminal: "status (result_order
      (refresh (eRound_dec 8) (almostEqual_dec 8) ?settled 2000000 (sample_order Canceled)))
      \<in> {Filled, Canceled}"
    using b absent by blast
  show ?thesis
    using filled canceled partially terminal a by blast
qed

text \<open>
  The claim as stated fails: a Canceled order that the open-orders snapshot lists with a
  quarter of its size one half pending is PartiallyFilled after \<^verbatim>\<open>refresh\<close>.
\<close>

theorem refresh_terminal_counterexample:
  "status (sample_order Canceled) = Canceled
   \<and> status (result_order
        (refresh (eRound_dec 8) (almostEqual_dec 8)
           (adapter (exchange [\<lparr> id_OpenOrder = ''A1'', pending_amount = Some (1 / 4) \<rparr>] [] True) Cash)
           2000000 (sample_order Canceled))) = PartiallyFilled"
  by (simp add: refresh_def fixtures)

text \<open>
  Claim C6. An order that is absent from the open-orders snapshot and has a transaction
  with its broker order id in the history, whatever its status (Filled and Canceled
  included): a second \<^verbatim>\<open>refresh\<close> against the same remote data, at any later time, succeeds
  as the first does and leaves the status, the executions and the filled size the first
  one left.
\<close>

theorem refresh_twice:
  assumes "getOpenOrders (brokerApi this) = Inr reply"
    and "brokerOrderId ord \<notin> id_OpenOrder ` set (orders reply)"
    and "getTransactionsWithStartDate (brokerApi this) (creationTime ord - 60000) = Inr history"
    and "brokerOrderId ord \<in> order_id ` set history"
  shows "let r1 = refresh eRound almostEqual this now ord;
             r2 = refresh eRound almostEqual this now' (result_order r1)
         in thrown r1 = None \<and> thrown r2 = None
            \<and> status (result_order r2) = status (result_order r1)
            \<and> executions (result_order r2) = executions (result_order r1)
            \<and> filledSize (result_order r2) = filledSize (result_order r1)"
proof -
  have absent: "find (\<lambda>x. id_OpenOrder x = brokerOrderId ord) (orders reply) = None"
    using assms(2) by (rule find_absent)
  have some: "filter (\<lambda>x. order_id x = brokerOrderId ord) history \<noteq> []"
    using assms(4) by (force simp: filter_empty_conv)
  show ?thesis
    using assms(1,3) absent some by (simp add: refresh_def addMinutes_def Let_def)
qed

text \<open>
  Two instances: a Filled order whose history fills it, and a Canceled order whose history
  holds a quarter only.
\<close>

theorem refresh_twice_witness:
  "(let this = adapter (exchange [] [fill ''A1'' 1000100 300000 (1 / 2)] True) Cash;
        r1 = refresh (eRound_dec 8) (almostEqual_dec 8) this 2000000 (sample_order Filled);
        r2 = refresh (eRound_dec 8) (almostEqual_dec 8) this 2000001 (result_order r1)
    in thrown r1 = None \<and> thrown r2 = None
       \<and> status (result_order r2) = status (result_order r1)
       \<and> executions (result_order r2) = executions (result_order r1)
       \<and> filledSize (result_order r2) = filledSize (result_order r1))
   \<and> (let this = adapter (exchange [] [fill ''A1'' 1000100 300000 (1 / 4)] True) Cash;
        r1 = refresh (eRound_dec 8) (almostEqual_dec 8) this 2000000 (sample_order Canceled);
        r2 = refresh (eRound_dec 8) (almostEqual_dec 8) this 2000001 (result_order r1)
    in thrown r1 = None \<and> thrown r2 = None
       \<and> status (result_order r2) = status (result_order r1)
       \<and> executions (result_order r2) = executions (result_order r1)
       \<and> filledSize (result_order r2) = filledSize (result_order r1))"
proof -
  let ?h1 = "[fill ''A1'' 1000100 300000 (1 / 2)]"
  let ?h2 = "[fill ''A1'' 1000100 300000 (1 / 4)]"
  note a = refresh_twice
            [of "adapter (exchange [] ?h1 True) Cash" "\<lparr> orders = [] \<rparr>" "sample_order Filled" ?h1
                "eRound_dec 8" "almostEqual_dec 8" 2000000 2000001]
  note b = refresh_twice
            [of "adapter (exchange [] ?h2 True) Cash" "\<lparr> orders = [] \<rparr>" "sample_order Canceled" ?h2
                "eRound_dec 8" "almostEqual_dec 8" 2000000 2000001]
  show ?thesis
    using a b by (simp add: fixtures Let_def)
qed

subsection \<open>cancel\<close>

text \<open>
  Claim C7. When the exchange acknowledges the cancel request of an order: if the
  acknowledgement reports failure, \<^verbatim>\<open>cancel\<close> throws the cancel-failed error for the order's
  broker order id and the order (its status and last-updated time included) is as it was;
  if it reports success, \<^verbatim>\<open>cancel\<close> returns without an error, the status is Canceled, the
  last-updated time is the current time, and no other field changes.
\<close>

theorem cancel_acknowledged:
  assumes "cancelOrder (brokerApi this) (brokerOrderId ord) = Inr reply"
  shows "let r = cancel this now ord in
           (\<not> success reply \<longrightarrow>
              thrown r = Some (CancelFailed (brokerOrderId ord))
              \<and> result_order r = ord
              \<and> status (result_order r) = status ord
              \<and> lastUpdated (result_order r) = lastUpdated ord)
           \<and> (success reply \<longrightarrow>
              thrown r = None
              \<and> status (result_order r) = Canceled
              \<and> lastUpdated (result_order r) = now
              \<and> result_order r = ord\<lparr> status := Canceled, lastUpdated := now \<rparr>)"
  using assms by (simp add: cancel_def Let_def)

text \<open>
  Two instances: the exchange refuses to cancel a PartiallyFilled order, and it cancels an
  Open one.
\<close>

theorem cancel_acknowledged_witness:
  "(let r = cancel (adapter (exchange [] [] False) Cash) 2000000 (sample_order PartiallyFilled)
    in thrown r = Some (CancelFailed ''A1'')
       \<and> result_order r = sample_order PartiallyFilled
       \<and> status (result_order r) = PartiallyFilled
       \<and> lastUpdated (result_order r) = 1000000)
   \<and> (let r = cancel (adapter (exchange [] [] True) Cash) 2000000 (sample_order Open)
    in thrown r = None
       \<and> status (result_order r) = Canceled
       \<and> lastUpdated (result_order r) = 2000000)"
proof -
  note a = cancel_acknowledged
            [of "adapter (exchange [] [] False) Cash" "sample_order PartiallyFilled"
                "\<lparr> success = False \<rparr>" 2000000]
  note b = cancel_acknowledged
            [of "adapter (exchange [] [] True) Cash" "sample_order Open"
                "\<lparr> success = True \<rparr>" 2000000]
  show ?thesis
    using a b by (simp add: fixtures Let_def)
qed

subsection \<open>The strategy map\<close>

text \<open>
  Claim C8. The constructor builds the strategy map from exactly the three modes Cash,
  MarginOpen and NetOut, and no method writes it. \<^verbatim>\<open>getBtcPosition\<close> resolves the adapter's
  configured mode and fails with the strategy-not-found error whenever that mode is not in
  the map. \<^verbatim>\<open>send\<close> resolves the order's own mode, once the order has passed the broker
  guard that precedes the lookup, and fails with the strategy-not-found error whenever that
  mode is not in the map, leaving the order as it was. Both hold for every adapter, the
  constructed ones included.
\<close>

theorem strategy_lookup:
  "dom (strategyMap (constructor CashStrategy MarginOpenStrategy NetOutStrategy api cfg))
     = {Cash, MarginOpen, NetOut}
   \<and> (config_cashMarginType (config this) \<notin> dom (strategyMap this) \<longrightarrow>
        getBtcPosition this = Inl (StrategyNotFound (config_cashMarginType (config this))))
   \<and> (broker ord = this_broker this \<and> cashMarginType ord \<notin> dom (strategyMap this) \<longrightarrow>
        result_order (send this ord) = ord
        \<and> thrown (send this ord) = Some (StrategyNotFound (cashMarginType ord)))"
  by (auto simp: constructor_def getBtcPosition_def send_def split: option.splits)

text \<open>
  An instance: a constructed adapter configured with a mode outside the three, and a
  Coincheck order with such a mode.
\<close>

theorem strategy_lookup_witness:
  "(let this = adapter (exchange [] [] True) (OtherMode ''MarginClose'');
        ord = (sample_order Open)\<lparr> cashMarginType := OtherMode ''MarginClose'' \<rparr>
    in dom (strategyMap this) = {Cash, MarginOpen, NetOut}
       \<and> broker ord = this_broker this
       \<and> cashMarginType ord \<notin> dom (strategyMap this)
       \<and> getBtcPosition this = Inl (StrategyNotFound (OtherMode ''MarginClose''))
       \<and> result_order (send this ord) = ord
       \<and> thrown (send this ord) = Some (StrategyNotFound (OtherMode ''MarginClose'')))"
proof -
  let ?cfg = "\<lparr> config_cashMarginType = OtherMode ''MarginClose'' \<rparr>"
  let ?built = "constructor stubStrategy stubStrategy stubStrategy (exchange [] [] True) ?cfg"
  let ?ord = "(sample_order Open)\<lparr> cashMarginType := OtherMode ''MarginClose'' \<rparr>"
  note a = strategy_lookup
            [of stubStrategy stubStrategy stubStrategy "exchange [] [] True" ?cfg ?built ?ord]
  have tag: "this_broker ?built = Coincheck" and cfg: "config ?built = ?cfg"
    by (simp_all add: constructor_def)
  show ?thesis
    using a tag cfg by (simp add: adapter_def sample_order_def Let_def)
qed

subsection \<open>mapToQuote\<close>

text \<open>
  Claim C9. For every order book, \<^verbatim>\<open>mapToQuote\<close> returns the first 100 asks (all of them
  when there are fewer) followed by the first 100 bids (likewise), each in its input order
  with its price and size, tagged Ask or Bid and with the adapter's broker; with at least
  100 entries on each side the result has 200 quotes; an empty book gives the empty list.
  The function is total: there is no input on which it fails.
\<close>

theorem mapToQuote_take_100:
  "let qs = mapToQuote this r;
       n = min (length (asks r)) 100;
       m = min (length (bids r)) 100
   in length qs = n + m
      \<and> (\<forall>i<n. qs ! i = \<lparr> quoteBroker = this_broker this, quoteSide = Ask,
                         quotePrice = fst (asks r ! i), quoteVolume = snd (asks r ! i) \<rparr>)
      \<and> (\<forall>j<m. qs ! (n + j) = \<lparr> quoteBroker = this_broker this, quoteSide = Bid,
                               quotePrice = fst (bids r ! j), quoteVolume = snd (bids r ! j) \<rparr>)
      \<and> (100 \<le> length (asks r) \<and> 100 \<le> length (bids r) \<longrightarrow> length qs = 200)
      \<and> (asks r = [] \<and> bids r = [] \<longrightarrow> qs = [])"
  by (auto simp: mapToQuote_def Let_def nth_append)

text \<open>
  Three instances, on the Coincheck adapter: a book of two asks and one bid, a book of
  150 asks and 100 bids, and the empty book.
\<close>

theorem mapToQuote_take_100_witness:
  "(let qs = mapToQuote (adapter (exchange [] [] True) Cash)
               \<lparr> asks = [(101, 1), (102, 2)], bids = [(99, 3)] \<rparr>
    in length qs = 3
       \<and> qs ! 0 = \<lparr> quoteBroker = Coincheck, quoteSide = Ask, quotePrice = 101, quoteVolume = 1 \<rparr>
       \<and> qs ! 1 = \<lparr> quoteBroker = Coincheck, quoteSide = Ask, quotePrice = 102, quoteVolume = 2 \<rparr>
       \<and> qs ! 2 = \<lparr> quoteBroker = Coincheck, quoteSide = Bid, quotePrice = 99, quoteVolume = 3 \<rparr>)
   \<and> (let book = \<lparr> asks = map (\<lambda>i. (100 + real i, 1)) [0..<150],
                   bids = map (\<lambda>i. (100 - real i, 2)) [0..<100] \<rparr>
    in 100 \<le> length (asks book) \<and> 100 \<le> length (bids book)
       \<and> length (mapToQuote (adapter (exchange [] [] True) Cash) book) = 200)
   \<and> mapToQuote (adapter (exchange [] [] True) Cash) \<lparr> asks = [], bids = [] \<rparr> = []"
proof -
  let ?coincheck = "adapter (exchange [] [] True) Cash"
  note a = mapToQuote_take_100 [of ?coincheck "\<lparr> asks = [(101, 1), (102, 2)], bids = [(99, 3)] \<rparr>"]
  note b = mapToQuote_take_100
            [of ?coincheck "\<lparr> asks = map (\<lambda>i. (100 + real i, 1)) [0..<150],
                          bids = map (\<lambda>i. (100 - real i, 2)) [0..<100] \<rparr>"]
  note c = mapToQuote_take_100 [of ?coincheck "\<lparr> asks = [], bids = [] \<rparr>"]
  have tag: "this_broker ?coincheck = Coincheck"
    by (simp add: adapter_def constructor_def)
  show ?thesis
    using a b c tag by (simp add: Let_def All_less_Suc numeral_2_eq_2)
qed

subsection \<open>refresh, a pending amount above the requested size\<close>

text \<open>
  Claim C10. There is an input on which \<^verbatim>\<open>refresh\<close> leaves a negative filled size: the
  order of size one half, found in the open-orders snapshot with a pending amount of three
  halves. \<^verbatim>\<open>refresh\<close> succeeds, the filled size is the rounded difference, which is minus
  one at every number of decimals, and the status is the one the order had.
\<close>

theorem refresh_negative_filledSize:
  "let ord = sample_order st;
       brokerOrder = \<lparr> id_OpenOrder = ''A1'', pending_amount = Some (3 / 2) \<rparr>;
       this = adapter (exchange [brokerOrder] history ack) mode;
       r = refresh (eRound_dec p) almostEqual this now ord
   in find (\<lambda>x. id_OpenOrder x = brokerOrderId ord) [brokerOrder] = Some brokerOrder
      \<and> size_Order ord < 3 / 2
      \<and> thrown r = None
      \<and> filledSize (result_order r) = eRound_dec p (size_Order ord - 3 / 2)
      \<and> filledSize (result_order r) = - 1
      \<and> filledSize (result_order r) < 0
      \<and> status (result_order r) = status ord"
proof -
  have "eRound_dec p (- 1) = - 1"
    using eRound_dec_of_int [of p "- 1"] by simp
  then show ?thesis
    by (simp add: refresh_def stubStrategy_def exchange_def adapter_def sample_order_def
        constructor_def)
qed

end
